theory Spec2Isabelle
  imports Complex_Main "HOL-Library.Word"
begin

section \<open>The MQ135 gas sensor library (MQ135.cpp)\<close>

subsection \<open>C floating-point values\<close>

text \<open>
  The library computes on C \<^verbatim>\<open>float\<close> values. A value is a finite number, one of the
  two infinities, or not-a-number. Finite values are kept as exact reals: rounding,
  overflow of a finite result and the sign of zero are not part of this model. What is
  modelled is how the special values arise and propagate (division by zero, \<^verbatim>\<open>inf * 0\<close>,
  comparisons with NaN, \<^verbatim>\<open>pow\<close> at zero and at negative bases), following IEEE 754 and
  Annex F of the C standard.
\<close>

datatype float = Finite real | PInf | NInf | NaN

fun is_finite :: "float \<Rightarrow> bool" where
  "is_finite (Finite a) = True"
| "is_finite PInf = False"
| "is_finite NInf = False"
| "is_finite NaN = False"

text \<open>The sign of a value that is not NaN, and the infinity of a given sign.\<close>

fun fsign :: "float \<Rightarrow> real" where
  "fsign (Finite a) = sgn a"
| "fsign PInf = 1"
| "fsign NInf = - 1"
| "fsign NaN = 0"

definition inf_of :: "real \<Rightarrow> float" where
  "inf_of s = (if 0 < s then PInf else if s < 0 then NInf else NaN)"

text \<open>Unary minus.\<close>

fun fneg :: "float \<Rightarrow> float" where
  "fneg (Finite a) = Finite (- a)"
| "fneg PInf = NInf"
| "fneg NInf = PInf"
| "fneg NaN = NaN"

text \<open>\<^verbatim>\<open>x + y\<close>: opposite infinities give NaN.\<close>

fun fadd :: "float \<Rightarrow> float \<Rightarrow> float" where
  "fadd NaN y = NaN"
| "fadd x NaN = NaN"
| "fadd (Finite a) (Finite b) = Finite (a + b)"
| "fadd (Finite a) PInf = PInf"
| "fadd (Finite a) NInf = NInf"
| "fadd PInf (Finite b) = PInf"
| "fadd NInf (Finite b) = NInf"
| "fadd PInf PInf = PInf"
| "fadd NInf NInf = NInf"
| "fadd PInf NInf = NaN"
| "fadd NInf PInf = NaN"

definition fsub :: "float \<Rightarrow> float \<Rightarrow> float" where
  "fsub x y = fadd x (fneg y)"

text \<open>\<^verbatim>\<open>x * y\<close>: an infinity times zero is NaN, otherwise the signs multiply.\<close>

fun fmul :: "float \<Rightarrow> float \<Rightarrow> float" where
  "fmul NaN y = NaN"
| "fmul x NaN = NaN"
| "fmul (Finite a) (Finite b) = Finite (a * b)"
| "fmul x y = inf_of (fsign x * fsign y)"

text \<open>
  \<^verbatim>\<open>x / y\<close>: a non-zero finite value divided by zero is the infinity of the numerator's
  sign (the zero divisor is taken as \<^verbatim>\<open>+0\<close>), \<^verbatim>\<open>0 / 0\<close> and \<^verbatim>\<open>inf / inf\<close> are NaN, a finite
  value divided by an infinity is zero.
\<close>

fun fdiv :: "float \<Rightarrow> float \<Rightarrow> float" where
  "fdiv NaN y = NaN"
| "fdiv x NaN = NaN"
| "fdiv (Finite a) (Finite b) = (if b = 0 then inf_of (sgn a) else Finite (a / b))"
| "fdiv (Finite a) y = Finite 0"
| "fdiv x (Finite b) = inf_of (fsign x * (if b < 0 then - 1 else 1))"
| "fdiv x y = NaN"

text \<open>\<^verbatim>\<open>x == y\<close> and \<^verbatim>\<open>x < y\<close>: every comparison with NaN is false.\<close>

fun feq :: "float \<Rightarrow> float \<Rightarrow> bool" where
  "feq NaN y = False"
| "feq x NaN = False"
| "feq (Finite a) (Finite b) = (a = b)"
| "feq PInf PInf = True"
| "feq NInf NInf = True"
| "feq x y = False"

fun flt :: "float \<Rightarrow> float \<Rightarrow> bool" where
  "flt NaN y = False"
| "flt x NaN = False"
| "flt (Finite a) (Finite b) = (a < b)"
| "flt NInf NInf = False"
| "flt NInf y = True"
| "flt x PInf = (x \<noteq> PInf)"
| "flt x y = False"

text \<open>\<^verbatim>\<open>x >= y\<close>, used to state on which side of a boundary a value lies.\<close>

definition fge :: "float \<Rightarrow> float \<Rightarrow> bool" where
  "fge x y = (flt y x \<or> feq x y)"

text \<open>
  \<^verbatim>\<open>pow(x, y)\<close> of the C library (C99 F.9.4.4). \<^verbatim>\<open>pow(x, 0)\<close> and \<^verbatim>\<open>pow(1, y)\<close> are 1 even
  for NaN arguments; a zero base with a negative exponent is a division by zero and
  gives \<^verbatim>\<open>+inf\<close>; a negative finite base with a non-integral exponent is NaN.
\<close>

definition is_integral :: "real \<Rightarrow> bool" where
  "is_integral b = (b = of_int \<lfloor>b\<rfloor>)"

definition is_odd_integral :: "real \<Rightarrow> bool" where
  "is_odd_integral b = (is_integral b \<and> odd \<lfloor>b\<rfloor>)"

fun pow_cases :: "float \<Rightarrow> float \<Rightarrow> float" where
  "pow_cases NaN y = NaN"
| "pow_cases x NaN = NaN"
| "pow_cases (Finite a) (Finite b) =
     (if 0 < a then Finite (a powr b)
      else if a = 0 then (if 0 < b then Finite 0 else PInf)
      else if is_integral b
        then Finite ((if is_odd_integral b then - 1 else 1) * ((- a) powr b))
      else NaN)"
| "pow_cases (Finite a) PInf =
     (if \<bar>a\<bar> < 1 then Finite 0 else if \<bar>a\<bar> = 1 then Finite 1 else PInf)"
| "pow_cases (Finite a) NInf =
     (if \<bar>a\<bar> < 1 then PInf else if \<bar>a\<bar> = 1 then Finite 1 else Finite 0)"
| "pow_cases PInf y = (if 0 < fsign y then PInf else Finite 0)"
| "pow_cases NInf (Finite b) =
     (if b < 0 then Finite 0 else if is_odd_integral b then NInf else PInf)"
| "pow_cases NInf PInf = PInf"
| "pow_cases NInf NInf = Finite 0"

definition pow :: "float \<Rightarrow> float \<Rightarrow> float" where
  "pow x y = (if y = Finite 0 \<or> x = Finite 1 then Finite 1 else pow_cases x y)"

text \<open>The conversion \<^verbatim>\<open>(float)val\<close> of an integer.\<close>

definition float_of_int :: "int \<Rightarrow> float" where
  "float_of_int i = Finite (of_int i)"

subsection \<open>The sensor object\<close>

text \<open>
  The fields of class \<^verbatim>\<open>MQ135\<close> (\<^verbatim>\<open>_pin\<close>, \<^verbatim>\<open>_rzero\<close>, \<^verbatim>\<open>_rload\<close>, \<^verbatim>\<open>_atmoco2\<close>; an Isabelle
  name cannot start with an underscore).
\<close>

record mq135 =
  pin :: "8 word"
  rzero :: float
  rload :: float
  atmoco2 :: float

text \<open>
  The header \<^verbatim>\<open>MQ135.h\<close> with the numeric macros is not among the sources, so every
  function takes the macros as a parameter: a record of the literals' values.
\<close>

record macros =
  RZERO :: real
  RLOAD :: real
  ATMOCO2 :: real
  CORA :: real
  CORB :: real
  CORC :: real
  CORD :: real
  CORE :: real
  CORF :: real
  CORG :: real
  PARA :: real
  PARB :: real

text \<open>
  An instance of the macros for evaluating the functions at concrete inputs: the values
  of the widely distributed version of the header. No theorem below that is stated for
  an arbitrary \<open>K\<close> depends on them.
\<close>

definition example_macros :: macros where
  "example_macros =
     \<lparr>RZERO = 7663 / 100, RLOAD = 10, ATMOCO2 = 39713 / 100,
      CORA = 35 / 100000, CORB = 2718 / 100000, CORC = 139538 / 100000,
      CORD = 18 / 10000, CORE = - 3333333 / 1000000000,
      CORF = - 1923077 / 1000000000, CORG = 1130128205 / 1000000000,
      PARA = 1166020682 / 10000000, PARB = 2769034857 / 1000000000\<rparr>"

text \<open>The two constructors, lines 27-32 and 43-48.\<close>

definition MQ135 :: "macros \<Rightarrow> 8 word \<Rightarrow> mq135" where
  "MQ135 K p = \<lparr>pin = p, rzero = Finite (RZERO K), rload = Finite (RLOAD K),
               atmoco2 = Finite (ATMOCO2 K)\<rparr>"

definition MQ135_rl_ppm :: "macros \<Rightarrow> 8 word \<Rightarrow> float \<Rightarrow> float \<Rightarrow> mq135" where
  "MQ135_rl_ppm K p rl ppm = \<lparr>pin = p, rzero = Finite (RZERO K), rload = rl, atmoco2 = ppm\<rparr>"

subsection \<open>Accessors\<close>

text \<open>
  Every member function is a function from the object to its result and the object
  after the call; a \<^verbatim>\<open>void\<close> function returns the object only.
\<close>

definition getAtmoco2 :: "macros \<Rightarrow> mq135 \<Rightarrow> float \<times> mq135" where
  "getAtmoco2 K m =
     (if feq (atmoco2 m) (Finite 0) then (Finite (ATMOCO2 K), m) else (atmoco2 m, m))"

definition setAtmoco2 :: "macros \<Rightarrow> float \<Rightarrow> mq135 \<Rightarrow> mq135" where
  "setAtmoco2 K ppm m =
     (if feq ppm (Finite 0) then m\<lparr>atmoco2 := Finite (ATMOCO2 K)\<rparr> else m\<lparr>atmoco2 := ppm\<rparr>)"

definition getRload :: "macros \<Rightarrow> mq135 \<Rightarrow> float \<times> mq135" where
  "getRload K m =
     (if feq (rload m) (Finite 0) then (Finite (RLOAD K), m) else (rload m, m))"

definition setRload :: "macros \<Rightarrow> float \<Rightarrow> mq135 \<Rightarrow> mq135" where
  "setRload K r m =
     (if feq r (Finite 0) then m\<lparr>rload := Finite (RLOAD K)\<rparr> else m\<lparr>rload := r\<rparr>)"

definition getRzero :: "macros \<Rightarrow> mq135 \<Rightarrow> float \<times> mq135" where
  "getRzero K m =
     (if feq (rzero m) (Finite 0) then (Finite (RZERO K), m) else (rzero m, m))"

definition setRzero :: "macros \<Rightarrow> float \<Rightarrow> mq135 \<Rightarrow> mq135" where
  "setRzero K r m =
     (if feq r (Finite 0) then m\<lparr>rzero := Finite (RZERO K)\<rparr> else m\<lparr>rzero := r\<rparr>)"

subsection \<open>Conversions\<close>

text \<open>\<^verbatim>\<open>getCorrectionFactor\<close>, lines 153-163; the literal \<^verbatim>\<open>33.\<close> and the macros are finite.\<close>

definition getCorrectionFactor :: "macros \<Rightarrow> float \<Rightarrow> float \<Rightarrow> mq135 \<Rightarrow> float \<times> mq135" where
  "getCorrectionFactor K t h m =
     (if flt t (Finite 20)
      then (fsub (fadd (fsub (fmul (fmul (Finite (CORA K)) t) t) (fmul (Finite (CORB K)) t))
                       (Finite (CORC K)))
                 (fmul (fsub h (Finite 33)) (Finite (CORD K))), m)
      else (fadd (fadd (fmul (Finite (CORE K)) t) (fmul (Finite (CORF K)) h))
                 (Finite (CORG K)), m))"

text \<open>
  \<^verbatim>\<open>getResistance\<close>, lines 172-175. \<^verbatim>\<open>analogRead\<close> is the board's acquisition function,
  a parameter: it maps the pin to the raw sample, an \<^verbatim>\<open>int\<close>.
\<close>

definition getResistance :: "(8 word \<Rightarrow> int) \<Rightarrow> mq135 \<Rightarrow> float \<times> mq135" where
  "getResistance analogRead m =
     (let val = analogRead (pin m)
      in (fmul (fsub (fdiv (Finite 1023) (float_of_int val)) (Finite 1)) (rload m), m))"

definition getCorrectedResistance ::
  "macros \<Rightarrow> (8 word \<Rightarrow> int) \<Rightarrow> float \<Rightarrow> float \<Rightarrow> mq135 \<Rightarrow> float \<times> mq135" where
  "getCorrectedResistance K analogRead t h m =
     (let (r, m1) = getResistance analogRead m;
          (c, m2) = getCorrectionFactor K t h m1
      in (fdiv r c, m2))"

definition getPPM :: "macros \<Rightarrow> (8 word \<Rightarrow> int) \<Rightarrow> mq135 \<Rightarrow> float \<times> mq135" where
  "getPPM K analogRead m =
     (let (r, m1) = getResistance analogRead m
      in (fmul (Finite (PARA K)) (pow (fdiv r (rzero m1)) (fneg (Finite (PARB K)))), m1))"

definition getCorrectedPPM ::
  "macros \<Rightarrow> (8 word \<Rightarrow> int) \<Rightarrow> float \<Rightarrow> float \<Rightarrow> mq135 \<Rightarrow> float \<times> mq135" where
  "getCorrectedPPM K analogRead t h m =
     (let (r, m1) = getCorrectedResistance K analogRead t h m
      in (fmul (Finite (PARA K)) (pow (fdiv r (rzero m1)) (fneg (Finite (PARB K)))), m1))"

definition measureRZero :: "macros \<Rightarrow> (8 word \<Rightarrow> int) \<Rightarrow> mq135 \<Rightarrow> float \<times> mq135" where
  "measureRZero K analogRead m =
     (let (r, m1) = getResistance analogRead m
      in (fmul r (pow (fdiv (atmoco2 m1) (Finite (PARA K)))
                      (fdiv (Finite 1) (Finite (PARB K)))), m1))"

definition measureCorrectedRZero ::
  "macros \<Rightarrow> (8 word \<Rightarrow> int) \<Rightarrow> float \<Rightarrow> float \<Rightarrow> mq135 \<Rightarrow> float \<times> mq135" where
  "measureCorrectedRZero K analogRead t h m =
     (let (r, m1) = getCorrectedResistance K analogRead t h m
      in (fmul r (pow (fdiv (atmoco2 m1) (Finite (PARA K)))
                      (fdiv (Finite 1) (Finite (PARB K)))), m1))"

subsection \<open>Arithmetic with rounding\<close>

text \<open>
  The operations above compute finite results exactly. What the hardware returns is the
  exact result rounded to the type of the operation, and \<^verbatim>\<open>pow\<close> is whatever the C
  library computes. For the claim that depends on it, the same source functions are given
  over arithmetic with rounding, the platform being a parameter: how a result of a
  \<^verbatim>\<open>double\<close> operation is rounded, how a value is rounded to \<^verbatim>\<open>float\<close> (a \<^verbatim>\<open>float\<close> operation,
  or the conversion of a \<^verbatim>\<open>double\<close> on return), and the library's \<^verbatim>\<open>pow\<close> at a positive
  base. A rounding may return an infinity (overflow) or zero (underflow). On a board whose
  \<^verbatim>\<open>double\<close> is the 32-bit type the two roundings are the same function.
\<close>

record fpu =
  rnd_double :: "real \<Rightarrow> float"
  rnd_float :: "real \<Rightarrow> float"
  libm_pow :: "real \<Rightarrow> real \<Rightarrow> float"

text \<open>
  The arithmetic operators on finite operands round the exact result; on every other
  operand, and for a division by zero, they are the operators above.
\<close>

fun fsub_r :: "(real \<Rightarrow> float) \<Rightarrow> float \<Rightarrow> float \<Rightarrow> float" where
  "fsub_r rnd (Finite a) (Finite b) = rnd (a - b)"
| "fsub_r rnd x y = fsub x y"

fun fmul_r :: "(real \<Rightarrow> float) \<Rightarrow> float \<Rightarrow> float \<Rightarrow> float" where
  "fmul_r rnd (Finite a) (Finite b) = rnd (a * b)"
| "fmul_r rnd x y = fmul x y"

fun fdiv_r :: "(real \<Rightarrow> float) \<Rightarrow> float \<Rightarrow> float \<Rightarrow> float" where
  "fdiv_r rnd (Finite a) (Finite b) = (if b = 0 then inf_of (sgn a) else rnd (a / b))"
| "fdiv_r rnd x y = fdiv x y"

text \<open>The conversion of a \<^verbatim>\<open>double\<close> result to the \<^verbatim>\<open>float\<close> that a function returns.\<close>

fun conv_r :: "(real \<Rightarrow> float) \<Rightarrow> float \<Rightarrow> float" where
  "conv_r rnd (Finite a) = rnd a"
| "conv_r rnd x = x"

text \<open>\<^verbatim>\<open>pow\<close>: the library's result at a positive finite base, the special cases as above.\<close>

fun pow_pos_r :: "(real \<Rightarrow> real \<Rightarrow> float) \<Rightarrow> float \<Rightarrow> float \<Rightarrow> float" where
  "pow_pos_r pw (Finite a) (Finite b) = (if 0 < a then pw a b else pow_cases (Finite a) (Finite b))"
| "pow_pos_r pw x y = pow_cases x y"

definition pow_r :: "(real \<Rightarrow> real \<Rightarrow> float) \<Rightarrow> float \<Rightarrow> float \<Rightarrow> float" where
  "pow_r pw x y = (if y = Finite 0 \<or> x = Finite 1 then Finite 1 else pow_pos_r pw x y)"

text \<open>
  \<^verbatim>\<open>getResistance\<close>, line 174: \<^verbatim>\<open>1023.\<close> and \<^verbatim>\<open>1.\<close> are \<^verbatim>\<open>double\<close> literals, so the three
  operations are \<^verbatim>\<open>double\<close> operations and the result is converted to \<^verbatim>\<open>float\<close> on return.
\<close>

definition getResistance_r :: "fpu \<Rightarrow> (8 word \<Rightarrow> int) \<Rightarrow> mq135 \<Rightarrow> float \<times> mq135" where
  "getResistance_r F analogRead m =
     (let val = analogRead (pin m)
      in (conv_r (rnd_float F)
            (fmul_r (rnd_double F)
               (fsub_r (rnd_double F)
                  (fdiv_r (rnd_double F) (Finite 1023) (float_of_int val)) (Finite 1))
               (rload m)), m))"

text \<open>
  \<^verbatim>\<open>getPPM\<close>, line 200: the division has two \<^verbatim>\<open>float\<close> operands, \<^verbatim>\<open>pow\<close> and the product
  with the macro are \<^verbatim>\<open>double\<close>.
\<close>

definition getPPM_r :: "fpu \<Rightarrow> macros \<Rightarrow> (8 word \<Rightarrow> int) \<Rightarrow> mq135 \<Rightarrow> float \<times> mq135" where
  "getPPM_r F K analogRead m =
     (let (r, m1) = getResistance_r F analogRead m
      in (conv_r (rnd_float F)
            (fmul_r (rnd_double F) (Finite (PARA K))
               (pow_r (libm_pow F) (fdiv_r (rnd_float F) r (rzero m1))
                  (fneg (Finite (PARB K))))), m1))"

text \<open>\<^verbatim>\<open>measureRZero\<close>, line 226: every operation has a \<^verbatim>\<open>double\<close> operand.\<close>

definition measureRZero_r ::
  "fpu \<Rightarrow> macros \<Rightarrow> (8 word \<Rightarrow> int) \<Rightarrow> mq135 \<Rightarrow> float \<times> mq135" where
  "measureRZero_r F K analogRead m =
     (let (r, m1) = getResistance_r F analogRead m
      in (conv_r (rnd_float F)
            (fmul_r (rnd_double F) r
               (pow_r (libm_pow F) (fdiv_r (rnd_double F) (atmoco2 m1) (Finite (PARA K)))
                  (fdiv_r (rnd_double F) (Finite 1) (Finite (PARB K))))), m1))"

text \<open>
  A step of a computation returned the finite value \<open>y\<close>, of magnitude at least \<open>lo\<close>
  (the smallest normal number of the format): it neither overflowed nor underflowed.
\<close>

definition rounds_to :: "real \<Rightarrow> float \<Rightarrow> real \<Rightarrow> bool" where
  "rounds_to lo r y = (r = Finite y \<and> lo \<le> \<bar>y\<bar>)"

text \<open>The platform that never rounds: on it the functions are the exact ones above.\<close>

definition exact_fpu :: fpu where
  "exact_fpu = \<lparr>rnd_double = Finite, rnd_float = Finite,
                 libm_pow = (\<lambda>a b. Finite (a powr b))\<rparr>"

subsection \<open>Sequences of setter calls\<close>

datatype setter_call = SetRzero float | SetRload float | SetAtmoco2 float

fun call_setter :: "macros \<Rightarrow> mq135 \<Rightarrow> setter_call \<Rightarrow> mq135" where
  "call_setter K m (SetRzero r) = setRzero K r m"
| "call_setter K m (SetRload r) = setRload K r m"
| "call_setter K m (SetAtmoco2 ppm) = setAtmoco2 K ppm m"

fun call_setters :: "macros \<Rightarrow> mq135 \<Rightarrow> setter_call list \<Rightarrow> mq135" where
  "call_setters K m [] = m"
| "call_setters K m (c # cs) = call_setters K (call_setter K m c) cs"

section \<open>Properties\<close>

subsection \<open>Arithmetic on finite values\<close>

lemma fsub_Finite [simp]: "fsub (Finite a) (Finite b) = Finite (a - b)"
  by (simp add: fsub_def)

lemma pow_pos_Finite: "0 < a \<Longrightarrow> pow (Finite a) (Finite b) = Finite (a powr b)"
  by (simp add: pow_def)

lemma fmul_PInf_not_finite: "\<not> is_finite (fmul PInf y)"
  by (cases y) (auto simp: inf_of_def sgn_real_def)

lemma getResistance_state [simp]: "snd (getResistance analogRead m) = m"
  by (simp add: getResistance_def Let_def)

lemma getCorrectionFactor_state [simp]: "snd (getCorrectionFactor K t h m) = m"
  by (simp add: getCorrectionFactor_def)

lemma getCorrectedResistance_state [simp]:
  "snd (getCorrectedResistance K analogRead t h m) = m"
  by (simp add: getCorrectedResistance_def split_beta Let_def)

lemma getCorrectedResistance_value:
  "fst (getCorrectedResistance K analogRead t h m) =
     fdiv (fst (getResistance analogRead m)) (fst (getCorrectionFactor K t h m))"
  by (simp add: getCorrectedResistance_def split_beta Let_def)

subsection \<open>Accessors\<close>

text \<open>
  C4. For each of the three calibration parameters (reference resistance, load
  resistance, atmospheric baseline), \<^verbatim>\<open>set(0)\<close> followed by \<^verbatim>\<open>get()\<close> returns the built-in
  default, and for every \<open>v\<close> that does not compare equal to zero, \<^verbatim>\<open>set(v)\<close> followed by
  \<^verbatim>\<open>get()\<close> returns exactly \<open>v\<close>.
\<close>

theorem set_then_get:
  "fst (getRzero K (setRzero K (Finite 0) m)) = Finite (RZERO K) \<and>
   fst (getRload K (setRload K (Finite 0) m)) = Finite (RLOAD K) \<and>
   fst (getAtmoco2 K (setAtmoco2 K (Finite 0) m)) = Finite (ATMOCO2 K) \<and>
   (\<not> feq v (Finite 0) \<longrightarrow>
      fst (getRzero K (setRzero K v m)) = v \<and>
      fst (getRload K (setRload K v m)) = v \<and>
      fst (getAtmoco2 K (setAtmoco2 K v m)) = v)"
  by (simp add: getRzero_def setRzero_def getRload_def setRload_def
      getAtmoco2_def setAtmoco2_def)

theorem set_then_get_witness:
  "\<not> feq (Finite 5) (Finite 0) \<and>
   fst (getRzero example_macros (setRzero example_macros (Finite 5) (MQ135 example_macros 0)))
     = Finite 5 \<and>
   fst (getRload example_macros (setRload example_macros (Finite 5) (MQ135 example_macros 0)))
     = Finite 5 \<and>
   fst (getAtmoco2 example_macros
          (setAtmoco2 example_macros (Finite 5) (MQ135 example_macros 0))) = Finite 5"
  using set_then_get [of example_macros "MQ135 example_macros 0" "Finite 5"] by simp

text \<open>
  C5, as the code has it. For each calibration parameter, \<^verbatim>\<open>set(0)\<close> after a previous
  \<^verbatim>\<open>set(v)\<close> writes the built-in default into the stored field (the substitution happens
  on write), and \<^verbatim>\<open>get()\<close> returns the default.
\<close>

theorem set_zero_stores_default:
  "rzero (setRzero K (Finite 0) (setRzero K v m)) = Finite (RZERO K) \<and>
   fst (getRzero K (setRzero K (Finite 0) (setRzero K v m))) = Finite (RZERO K) \<and>
   rload (setRload K (Finite 0) (setRload K v m)) = Finite (RLOAD K) \<and>
   fst (getRload K (setRload K (Finite 0) (setRload K v m))) = Finite (RLOAD K) \<and>
   atmoco2 (setAtmoco2 K (Finite 0) (setAtmoco2 K v m)) = Finite (ATMOCO2 K) \<and>
   fst (getAtmoco2 K (setAtmoco2 K (Finite 0) (setAtmoco2 K v m))) = Finite (ATMOCO2 K)"
  by (simp add: getRzero_def setRzero_def getRload_def setRload_def
      getAtmoco2_def setAtmoco2_def)

text \<open>
  C5, as the claim states it, fails: after \<^verbatim>\<open>setRzero(5)\<close> and \<^verbatim>\<open>setRzero(0)\<close> on a
  freshly constructed sensor the stored field is the default 76.63, not zero.
\<close>

theorem set_zero_field_counterexample:
  "rzero (setRzero example_macros (Finite 0)
            (setRzero example_macros (Finite 5) (MQ135 example_macros 0)))
     = Finite (7663 / 100) \<and>
   \<not> feq (rzero (setRzero example_macros (Finite 0)
                   (setRzero example_macros (Finite 5) (MQ135 example_macros 0))))
           (Finite 0)"
  by (simp add: setRzero_def example_macros_def)

subsection \<open>Calibration measurements leave the object alone\<close>

text \<open>
  C8. \<^verbatim>\<open>measureRZero()\<close> and \<^verbatim>\<open>measureCorrectedRZero(t, h)\<close> do not change any stored
  field: the pin, the load resistance, the reference resistance and the atmospheric
  baseline of the object after the call are those before it.
\<close>

theorem measure_keeps_fields:
  "snd (measureRZero K analogRead m) = m \<and>
   snd (measureCorrectedRZero K analogRead t h m) = m \<and>
   pin (snd (measureRZero K analogRead m)) = pin m \<and>
   rload (snd (measureRZero K analogRead m)) = rload m \<and>
   rzero (snd (measureRZero K analogRead m)) = rzero m \<and>
   atmoco2 (snd (measureRZero K analogRead m)) = atmoco2 m \<and>
   pin (snd (measureCorrectedRZero K analogRead t h m)) = pin m \<and>
   rload (snd (measureCorrectedRZero K analogRead t h m)) = rload m \<and>
   rzero (snd (measureCorrectedRZero K analogRead t h m)) = rzero m \<and>
   atmoco2 (snd (measureCorrectedRZero K analogRead t h m)) = atmoco2 m"
proof -
  have a: "snd (measureRZero K analogRead m) = m"
    by (simp add: measureRZero_def split_beta Let_def)
  have b: "snd (measureCorrectedRZero K analogRead t h m) = m"
    by (simp add: measureCorrectedRZero_def split_beta Let_def)
  show ?thesis
    by (simp only: a b simp_thms)
qed

subsection \<open>The correction factor\<close>

lemma getCorrectionFactor_Finite:
  "fst (getCorrectionFactor K (Finite t) (Finite h) m) =
     Finite (if t < 20 then CORA K * t * t - CORB K * t + CORC K - (h - 33) * CORD K
             else CORE K * t + CORF K * h + CORG K)"
  by (simp add: getCorrectionFactor_def)

lemma fge_20: "fge t (Finite 20) \<Longrightarrow> \<not> flt t (Finite 20)"
  by (cases t) (auto simp: fge_def)

text \<open>
  C3. \<^verbatim>\<open>getCorrectionFactor(t, h)\<close> is piecewise, the boundary belonging to the high
  branch: for every \<open>t < 20\<close> it returns \<open>CORA t\<^sup>2 - CORB t + CORC - (h - 33) CORD\<close>, and
  for every \<open>t \<ge> 20\<close>, in particular at exactly \<open>t = 20\<close>, it returns
  \<open>CORE t + CORF h + CORG\<close>. The first two conjuncts state it for all values with the
  arithmetic of the code, the others for finite arguments as real numbers.
\<close>

theorem correction_factor_branches:
  "(flt t (Finite 20) \<longrightarrow>
      fst (getCorrectionFactor K t h m) =
        fsub (fadd (fsub (fmul (fmul (Finite (CORA K)) t) t) (fmul (Finite (CORB K)) t))
                   (Finite (CORC K)))
             (fmul (fsub h (Finite 33)) (Finite (CORD K)))) \<and>
   (fge t (Finite 20) \<longrightarrow>
      fst (getCorrectionFactor K t h m) =
        fadd (fadd (fmul (Finite (CORE K)) t) (fmul (Finite (CORF K)) h)) (Finite (CORG K))) \<and>
   (a < 20 \<longrightarrow>
      fst (getCorrectionFactor K (Finite a) (Finite b) m) =
        Finite (CORA K * a\<^sup>2 - CORB K * a + CORC K - (b - 33) * CORD K)) \<and>
   (20 \<le> a \<longrightarrow>
      fst (getCorrectionFactor K (Finite a) (Finite b) m) =
        Finite (CORE K * a + CORF K * b + CORG K)) \<and>
   fst (getCorrectionFactor K (Finite 20) (Finite b) m) =
     Finite (CORE K * 20 + CORF K * b + CORG K)"
proof (intro conjI impI)
  assume "flt t (Finite 20)"
  then show "fst (getCorrectionFactor K t h m) =
        fsub (fadd (fsub (fmul (fmul (Finite (CORA K)) t) t) (fmul (Finite (CORB K)) t))
                   (Finite (CORC K)))
             (fmul (fsub h (Finite 33)) (Finite (CORD K)))"
    by (simp add: getCorrectionFactor_def)
next
  assume "fge t (Finite 20)"
  then have "\<not> flt t (Finite 20)" by (rule fge_20)
  then show "fst (getCorrectionFactor K t h m) =
        fadd (fadd (fmul (Finite (CORE K)) t) (fmul (Finite (CORF K)) h)) (Finite (CORG K))"
    by (simp add: getCorrectionFactor_def)
next
  assume "a < 20"
  then show "fst (getCorrectionFactor K (Finite a) (Finite b) m) =
        Finite (CORA K * a\<^sup>2 - CORB K * a + CORC K - (b - 33) * CORD K)"
    by (simp add: getCorrectionFactor_Finite power2_eq_square)
next
  assume "20 \<le> a"
  then show "fst (getCorrectionFactor K (Finite a) (Finite b) m) =
        Finite (CORE K * a + CORF K * b + CORG K)"
    by (simp add: getCorrectionFactor_Finite)
next
  show "fst (getCorrectionFactor K (Finite 20) (Finite b) m) =
     Finite (CORE K * 20 + CORF K * b + CORG K)"
    by (simp add: getCorrectionFactor_Finite)
qed

theorem correction_factor_branches_witness:
  "flt (Finite 10) (Finite 20) \<and> (10::real) < 20 \<and>
   fst (getCorrectionFactor example_macros (Finite 10) (Finite 33) (MQ135 example_macros 0))
     = Finite (57929 / 50000) \<and>
   fge (Finite 30) (Finite 20) \<and> (20::real) \<le> 30 \<and>
   fst (getCorrectionFactor example_macros (Finite 30) (Finite 33) (MQ135 example_macros 0))
     = Finite (483333337 / 500000000) \<and>
   fst (getCorrectionFactor example_macros (Finite 20) (Finite 33) (MQ135 example_macros 0))
     = Finite (250000001 / 250000000)"
  using correction_factor_branches
          [of "Finite 10" example_macros "Finite 33" "MQ135 example_macros 0" 10 33]
        correction_factor_branches
          [of "Finite 30" example_macros "Finite 33" "MQ135 example_macros 0" 30 33]
  by (simp add: example_macros_def fge_def)

subsection \<open>The sensor resistance\<close>

lemma getResistance_nonzero:
  "analogRead (pin m) \<noteq> 0 \<Longrightarrow>
     fst (getResistance analogRead m) =
       fmul (Finite (1023 / real_of_int (analogRead (pin m)) - 1)) (rload m)"
  by (simp add: getResistance_def Let_def float_of_int_def)

lemma getResistance_zero:
  "analogRead (pin m) = 0 \<Longrightarrow> fst (getResistance analogRead m) = fmul PInf (rload m)"
  by (simp add: getResistance_def Let_def float_of_int_def inf_of_def fsub_def)

text \<open>
  C6. \<^verbatim>\<open>getResistance()\<close> returns \<open>(1023 / sample - 1) * loadResistance\<close> for the raw
  sample read from the pin, the load resistance being the stored field; with sample 200
  and load resistance 10 it returns 41.15.
\<close>

theorem getResistance_divider:
  "(analogRead (pin m) \<noteq> 0 \<longrightarrow>
      fst (getResistance analogRead m) =
        fmul (Finite (1023 / real_of_int (analogRead (pin m)) - 1)) (rload m)) \<and>
   (analogRead (pin m) \<noteq> 0 \<and> rload m = Finite rl \<longrightarrow>
      fst (getResistance analogRead m) =
        Finite ((1023 / real_of_int (analogRead (pin m)) - 1) * rl)) \<and>
   fst (getResistance (\<lambda>p. 200) (m\<lparr>rload := Finite 10\<rparr>)) = Finite (4115 / 100)"
  by (simp add: getResistance_nonzero)

theorem getResistance_divider_witness:
  "(\<lambda>p. 512) (pin (MQ135 example_macros 0)) \<noteq> (0::int) \<and>
   rload (MQ135 example_macros 0) = Finite 10 \<and>
   fst (getResistance (\<lambda>p. 512) (MQ135 example_macros 0)) = Finite (2555 / 256)"
  using getResistance_divider [of "\<lambda>p. 512" "MQ135 example_macros 0" 10]
  by (simp add: MQ135_def example_macros_def)

text \<open>
  C9. When the raw sample is zero, \<^verbatim>\<open>getResistance()\<close> divides by zero without a guard:
  its result is an infinity or NaN (\<^verbatim>\<open>+inf\<close> times the load resistance), never a finite
  value; \<^verbatim>\<open>+inf\<close> for a positive load resistance. The function has no other outcome: it
  raises nothing.
\<close>

theorem getResistance_zero_sample:
  "analogRead (pin m) = 0 \<Longrightarrow>
     \<not> is_finite (fst (getResistance analogRead m)) \<and>
     fst (getResistance analogRead m) = fmul PInf (rload m) \<and>
     (rload m = Finite rl \<and> 0 < rl \<longrightarrow> fst (getResistance analogRead m) = PInf)"
  by (simp add: getResistance_zero fmul_PInf_not_finite inf_of_def)

theorem getResistance_zero_sample_witness:
  "(\<lambda>p. 0) (pin (MQ135 example_macros 0)) = (0::int) \<and>
   rload (MQ135 example_macros 0) = Finite 10 \<and> (0::real) < 10 \<and>
   fst (getResistance (\<lambda>p. 0) (MQ135 example_macros 0)) = PInf"
  using getResistance_zero_sample [of "\<lambda>p. 0" "MQ135 example_macros 0" 10]
  by (simp add: MQ135_def example_macros_def inf_of_def)

text \<open>
  C2 asks that a sensor constructed with zero for the load resistance or for the
  atmospheric baseline behaves as with the defaults. The getters do report the defaults
  for such a sensor, but \<^verbatim>\<open>getResistance()\<close> and \<^verbatim>\<open>measureRZero()\<close> read the fields, which
  hold the zeros: at sample 200 the resistance is 0 where the default load resistance
  gives 41.15, and the measured reference resistance is 0.
\<close>

theorem zero_overrides_not_defaulted:
  "fst (getResistance (\<lambda>p. 200) (MQ135_rl_ppm example_macros 0 (Finite 0) (Finite 0)))
     = Finite 0 \<and>
   fst (getRload example_macros (MQ135_rl_ppm example_macros 0 (Finite 0) (Finite 0)))
     = Finite 10 \<and>
   fst (getResistance (\<lambda>p. 200) (MQ135 example_macros 0)) = Finite (4115 / 100) \<and>
   fst (measureRZero example_macros (\<lambda>p. 200)
          (MQ135_rl_ppm example_macros 0 (Finite 10) (Finite 0))) = Finite 0 \<and>
   fst (getAtmoco2 example_macros (MQ135_rl_ppm example_macros 0 (Finite 10) (Finite 0)))
     = Finite (39713 / 100) \<and>
   fst (measureRZero example_macros (\<lambda>p. 200) (MQ135 example_macros 0)) \<noteq> Finite 0"
  by (simp add: getResistance_def getRload_def getAtmoco2_def measureRZero_def
      MQ135_rl_ppm_def MQ135_def example_macros_def float_of_int_def Let_def pow_def)

subsection \<open>The power law\<close>

lemma getPPM_value:
  "fst (getPPM K analogRead m) =
     fmul (Finite (PARA K))
       (pow (fdiv (fst (getResistance analogRead m)) (rzero m)) (Finite (- PARB K)))"
  by (simp add: getPPM_def split_beta Let_def getResistance_def)

lemma getCorrectedPPM_value:
  "fst (getCorrectedPPM K analogRead t h m) =
     fmul (Finite (PARA K))
       (pow (fdiv (fst (getCorrectedResistance K analogRead t h m)) (rzero m))
            (Finite (- PARB K)))"
proof -
  have "snd (getCorrectedResistance K analogRead t h m) = m"
    by simp
  then show ?thesis
    by (simp add: getCorrectedPPM_def split_beta Let_def)
qed

lemma measureRZero_value:
  "fst (measureRZero K analogRead m) =
     fmul (fst (getResistance analogRead m))
       (pow (fdiv (atmoco2 m) (Finite (PARA K))) (fdiv (Finite 1) (Finite (PARB K))))"
  by (simp add: measureRZero_def split_beta Let_def getResistance_def)

lemma curve_Finite:
  assumes "0 < r" "0 < rz"
  shows "fmul (Finite P) (pow (fdiv (Finite r) (Finite rz)) (Finite (- Q))) =
           Finite (P * (r / rz) powr (- Q))"
proof -
  from assms have "0 < r / rz" by simp
  then have "pow (Finite (r / rz)) (Finite (- Q)) = Finite ((r / rz) powr (- Q))"
    by (rule pow_pos_Finite)
  with assms show ?thesis by simp
qed

lemma inverse_curve_Finite:
  assumes "0 < c / P" "Q \<noteq> 0"
  shows "pow (fdiv (Finite c) (Finite P)) (fdiv (Finite 1) (Finite Q)) =
           Finite ((c / P) powr (1 / Q))"
proof -
  from assms have "P \<noteq> 0" by auto
  with assms show ?thesis by (simp add: pow_pos_Finite)
qed

text \<open>
  C7. \<^verbatim>\<open>getPPM()\<close> returns \<open>PARA * (getResistance() / referenceResistance) ^ (- PARB)\<close>,
  \<^verbatim>\<open>getCorrectedPPM(t, h)\<close> is the same curve at \<^verbatim>\<open>getCorrectedResistance(t, h)\<close>, and
  \<^verbatim>\<open>measureRZero()\<close> returns \<open>getResistance() * (atmosphericBaseline / PARA) ^ (1 / PARB)\<close>,
  the reference resistance and the baseline being the stored fields. The first three
  conjuncts state it for all values with the arithmetic of the code, the others for
  positive finite values with the real power function.
\<close>

theorem power_law:
  "fst (getPPM K analogRead m) =
     fmul (Finite (PARA K))
       (pow (fdiv (fst (getResistance analogRead m)) (rzero m)) (Finite (- PARB K))) \<and>
   fst (getCorrectedPPM K analogRead t h m) =
     fmul (Finite (PARA K))
       (pow (fdiv (fst (getCorrectedResistance K analogRead t h m)) (rzero m))
            (Finite (- PARB K))) \<and>
   fst (measureRZero K analogRead m) =
     fmul (fst (getResistance analogRead m))
       (pow (fdiv (atmoco2 m) (Finite (PARA K))) (fdiv (Finite 1) (Finite (PARB K)))) \<and>
   (fst (getResistance analogRead m) = Finite r \<and> rzero m = Finite rz \<and> 0 < r \<and> 0 < rz \<longrightarrow>
      fst (getPPM K analogRead m) = Finite (PARA K * (r / rz) powr (- PARB K))) \<and>
   (fst (getCorrectedResistance K analogRead t h m) = Finite rc \<and> rzero m = Finite rz \<and>
    0 < rc \<and> 0 < rz \<longrightarrow>
      fst (getCorrectedPPM K analogRead t h m) = Finite (PARA K * (rc / rz) powr (- PARB K))) \<and>
   (fst (getResistance analogRead m) = Finite r \<and> atmoco2 m = Finite c \<and>
    0 < c / PARA K \<and> PARB K \<noteq> 0 \<longrightarrow>
      fst (measureRZero K analogRead m) = Finite (r * (c / PARA K) powr (1 / PARB K)))"
proof (intro conjI impI)
  show "fst (getPPM K analogRead m) =
     fmul (Finite (PARA K))
       (pow (fdiv (fst (getResistance analogRead m)) (rzero m)) (Finite (- PARB K)))"
    by (rule getPPM_value)
next
  show "fst (getCorrectedPPM K analogRead t h m) =
     fmul (Finite (PARA K))
       (pow (fdiv (fst (getCorrectedResistance K analogRead t h m)) (rzero m))
            (Finite (- PARB K)))"
    by (rule getCorrectedPPM_value)
next
  show "fst (measureRZero K analogRead m) =
     fmul (fst (getResistance analogRead m))
       (pow (fdiv (atmoco2 m) (Finite (PARA K))) (fdiv (Finite 1) (Finite (PARB K))))"
    by (rule measureRZero_value)
next
  assume "fst (getResistance analogRead m) = Finite r \<and> rzero m = Finite rz \<and> 0 < r \<and> 0 < rz"
  then show "fst (getPPM K analogRead m) = Finite (PARA K * (r / rz) powr (- PARB K))"
    by (simp only: getPPM_value curve_Finite)
next
  assume "fst (getCorrectedResistance K analogRead t h m) = Finite rc \<and> rzero m = Finite rz \<and>
    0 < rc \<and> 0 < rz"
  then show "fst (getCorrectedPPM K analogRead t h m) =
      Finite (PARA K * (rc / rz) powr (- PARB K))"
    by (simp only: getCorrectedPPM_value curve_Finite)
next
  assume "fst (getResistance analogRead m) = Finite r \<and> atmoco2 m = Finite c \<and>
    0 < c / PARA K \<and> PARB K \<noteq> 0"
  then have r: "fst (getResistance analogRead m) = Finite r" and c: "atmoco2 m = Finite c"
    and k: "0 < c / PARA K" "PARB K \<noteq> 0"
    by simp_all
  show "fst (measureRZero K analogRead m) = Finite (r * (c / PARA K) powr (1 / PARB K))"
    by (simp only: measureRZero_value r c inverse_curve_Finite [OF k] fmul.simps)
qed

theorem power_law_witness:
  "fst (getResistance (\<lambda>p. 200) (MQ135 example_macros 0)) = Finite (4115 / 100) \<and>
   rzero (MQ135 example_macros 0) = Finite (7663 / 100) \<and>
   atmoco2 (MQ135 example_macros 0) = Finite (39713 / 100) \<and>
   fst (getCorrectedResistance example_macros (\<lambda>p. 200) (Finite 10) (Finite 33)
          (MQ135 example_macros 0)) = Finite (2057500 / 57929) \<and>
   (0::real) < 39713 / 100 / PARA example_macros \<and> PARB example_macros \<noteq> 0 \<and>
   fst (getPPM example_macros (\<lambda>p. 200) (MQ135 example_macros 0)) =
     Finite (PARA example_macros * (4115 / 100 / (7663 / 100)) powr (- PARB example_macros)) \<and>
   fst (getCorrectedPPM example_macros (\<lambda>p. 200) (Finite 10) (Finite 33)
          (MQ135 example_macros 0)) =
     Finite (PARA example_macros * (2057500 / 57929 / (7663 / 100)) powr
               (- PARB example_macros)) \<and>
   fst (measureRZero example_macros (\<lambda>p. 200) (MQ135 example_macros 0)) =
     Finite (4115 / 100 * (39713 / 100 / PARA example_macros) powr
               (1 / PARB example_macros))"
proof -
  have r: "fst (getResistance (\<lambda>p. 200) (MQ135 example_macros 0)) = Finite (4115 / 100)"
    by (simp add: getResistance_def Let_def float_of_int_def MQ135_def example_macros_def)
  have rz: "rzero (MQ135 example_macros 0) = Finite (7663 / 100)"
    and c: "atmoco2 (MQ135 example_macros 0) = Finite (39713 / 100)"
    by (simp_all add: MQ135_def example_macros_def)
  have f: "fst (getCorrectionFactor example_macros (Finite 10) (Finite 33)
                  (MQ135 example_macros 0)) = Finite (57929 / 50000)"
    by (simp add: getCorrectionFactor_Finite example_macros_def)
  have rc: "fst (getCorrectedResistance example_macros (\<lambda>p. 200) (Finite 10) (Finite 33)
                   (MQ135 example_macros 0)) = Finite (2057500 / 57929)"
    by (simp add: getCorrectedResistance_value r f)
  have k: "(0::real) < 39713 / 100 / PARA example_macros" "PARB example_macros \<noteq> 0"
    by (simp_all add: example_macros_def)
  note pl = power_law [where K = example_macros and analogRead = "\<lambda>p. 200"
      and m = "MQ135 example_macros 0" and t = "Finite 10" and h = "Finite 33"
      and r = "4115 / 100" and rz = "7663 / 100" and rc = "2057500 / 57929"
      and c = "39713 / 100"]
  note pl3 = pl [THEN conjunct2, THEN conjunct2, THEN conjunct2]
  have a: "fst (getPPM example_macros (\<lambda>p. 200) (MQ135 example_macros 0)) =
     Finite (PARA example_macros * (4115 / 100 / (7663 / 100)) powr (- PARB example_macros))"
    by (rule mp [OF pl3 [THEN conjunct1]]) (simp add: r rz)
  have b: "fst (getCorrectedPPM example_macros (\<lambda>p. 200) (Finite 10) (Finite 33)
          (MQ135 example_macros 0)) =
     Finite (PARA example_macros * (2057500 / 57929 / (7663 / 100)) powr
               (- PARB example_macros))"
    by (rule mp [OF pl3 [THEN conjunct2, THEN conjunct1]]) (simp add: rc rz)
  have d: "fst (measureRZero example_macros (\<lambda>p. 200) (MQ135 example_macros 0)) =
     Finite (4115 / 100 * (39713 / 100 / PARA example_macros) powr
               (1 / PARB example_macros))"
    by (rule mp [OF pl3 [THEN conjunct2, THEN conjunct2]]) (intro conjI r c k)
  show ?thesis
    by (intro conjI) (rule r rz c rc k a b d)+
qed


subsection \<open>Calibration round trip\<close>

text \<open>
  Relative errors: a value within relative error \<open>e\<close> of \<open>b\<close> is \<open>b\<close> times a factor
  near one, whose logarithm is at most \<open>2 e\<close> in magnitude.
\<close>

lemma rel_err_factor:
  fixes a b e :: real
  assumes "\<bar>a - b\<bar> \<le> e * \<bar>b\<bar>" "b \<noteq> 0"
  obtains t where "a = b * t" "\<bar>t - 1\<bar> \<le> e"
proof
  show "a = b * (a / b)" using assms(2) by simp
  have "a / b - 1 = (a - b) / b"
    using assms(2) by (simp add: diff_divide_distrib)
  then have "\<bar>a / b - 1\<bar> = \<bar>a - b\<bar> / \<bar>b\<bar>"
    by (simp only: abs_divide)
  also have "\<dots> \<le> e"
    using assms by (simp add: pos_divide_le_eq)
  finally show "\<bar>a / b - 1\<bar> \<le> e" .
qed

lemma ln_near_one:
  fixes t e :: real
  assumes "\<bar>t - 1\<bar> \<le> e" "e \<le> 1 / 2"
  shows "0 < t" "\<bar>ln t\<bar> \<le> 2 * e"
proof -
  from assms show t: "0 < t" by linarith
  have up: "ln t \<le> t - 1" using t by (rule ln_le_minus_one)
  have "ln (1 / t) \<le> 1 / t - 1" using t by (intro ln_le_minus_one) simp
  moreover have "ln (1 / t) = - ln t" using t by (simp add: ln_div)
  moreover have "1 / t - 1 = (1 - t) / t" using t by (simp add: diff_divide_distrib)
  ultimately have "- ln t \<le> (1 - t) / t" by simp
  also have "\<dots> \<le> 2 * e"
  proof -
    have "1 - t \<le> e" using assms by linarith
    moreover have "1 / 2 \<le> t" using assms by linarith
    moreover have "0 \<le> e" using assms by linarith
    ultimately have "e * 1 \<le> e * (2 * t)"
      by (intro mult_left_mono) linarith+
    with \<open>1 - t \<le> e\<close> have "1 - t \<le> 2 * e * t"
      by linarith
    then show ?thesis using t by (simp add: pos_divide_le_eq)
  qed
  finally have "- ln t \<le> 2 * e" .
  moreover have "ln t \<le> 2 * e" using up assms by linarith
  ultimately show "\<bar>ln t\<bar> \<le> 2 * e" by linarith
qed

text \<open>
  The error analysis of the round trip on real numbers: \<open>x4\<close>, \<open>x5\<close>, \<open>q\<close>, \<open>z1\<close>, \<open>rz\<close> are
  the rounded steps of \<^verbatim>\<open>measureRZero\<close> and \<open>x7\<close>, \<open>p\<close>, \<open>y1\<close>, \<open>y\<close> those of \<^verbatim>\<open>getPPM\<close>.
\<close>

lemma round_trip_error:
  fixes e c P Q R x4 x5 q z1 rz x7 p y1 y :: real
  assumes e: "e \<le> 1 / 2"
    and pos: "0 < c" "0 < P" "Q \<noteq> 0" "R \<noteq> 0"
    and x4: "\<bar>x4 - c / P\<bar> \<le> e * \<bar>c / P\<bar>"
    and x5: "\<bar>x5 - 1 / Q\<bar> \<le> e * \<bar>1 / Q\<bar>"
    and q: "0 < x4 \<Longrightarrow> \<bar>q - x4 powr x5\<bar> \<le> e * \<bar>x4 powr x5\<bar>"
    and z1: "\<bar>z1 - R * q\<bar> \<le> e * \<bar>R * q\<bar>"
    and rz: "\<bar>rz - z1\<bar> \<le> e * \<bar>z1\<bar>"
    and x7: "\<bar>x7 - R / rz\<bar> \<le> e * \<bar>R / rz\<bar>"
    and p: "0 < x7 \<Longrightarrow> \<bar>p - x7 powr (- Q)\<bar> \<le> e * \<bar>x7 powr (- Q)\<bar>"
    and y1: "\<bar>y1 - P * p\<bar> \<le> e * \<bar>P * p\<bar>"
    and y: "\<bar>y - y1\<bar> \<le> e * \<bar>y1\<bar>"
  shows "rz \<noteq> 0" and "0 < y"
    and "\<bar>ln y - ln c\<bar> \<le> e * (\<bar>ln (c / P)\<bar> + 8 * \<bar>Q\<bar> + 9)"
proof -
  define L where "L = ln (c / P)"
  have L: "L = ln c - ln P"
    using pos by (simp add: L_def ln_div)
  have cP: "c / P \<noteq> 0" using pos by simp
  from x4 cP obtain t4 where t4: "x4 = c / P * t4" "\<bar>t4 - 1\<bar> \<le> e"
    by (rule rel_err_factor)
  note n4 = ln_near_one [OF t4(2) e]
  have x4p: "0 < x4" using t4(1) n4(1) pos by simp
  have "0 < c / P" using pos by simp
  then have lx4: "ln x4 = L + ln t4"
    unfolding t4(1) L_def using n4(1) by (rule ln_mult_pos)
  have "1 / Q \<noteq> 0" using pos by simp
  with x5 obtain t5 where t5: "x5 = 1 / Q * t5" "\<bar>t5 - 1\<bar> \<le> e"
    by (rule rel_err_factor)
  have Qx5: "Q * x5 = t5" using pos by (simp add: t5(1))
  have "x4 powr x5 \<noteq> 0" using x4p by simp
  with q [OF x4p] obtain tq where tq: "q = x4 powr x5 * tq" "\<bar>tq - 1\<bar> \<le> e"
    by (rule rel_err_factor)
  note nq = ln_near_one [OF tq(2) e]
  have qp: "0 < q" using tq(1) nq(1) x4p by simp
  have lq: "ln q = x5 * ln x4 + ln tq"
    using x4p nq(1) by (simp add: tq(1) ln_mult)
  have "R * q \<noteq> 0" using pos qp by simp
  with z1 obtain t6 where t6: "z1 = R * q * t6" "\<bar>t6 - 1\<bar> \<le> e"
    by (rule rel_err_factor)
  note n6 = ln_near_one [OF t6(2) e]
  have z1n: "z1 \<noteq> 0" using t6(1) n6(1) pos qp by simp
  with rz obtain t6' where t6': "rz = z1 * t6'" "\<bar>t6' - 1\<bar> \<le> e"
    by (rule rel_err_factor)
  note n6' = ln_near_one [OF t6'(2) e]
  show rzn: "rz \<noteq> 0" using t6'(1) n6'(1) z1n by simp
  have ratio: "R / rz = 1 / (q * t6 * t6')"
    using pos by (simp add: t6'(1) t6(1))
  have ratiop: "0 < R / rz"
    using qp n6(1) n6'(1) by (simp add: ratio)
  have lratio: "ln (R / rz) = - (ln q + ln t6 + ln t6')"
    using qp n6(1) n6'(1) by (simp add: ratio ln_div ln_mult)
  have "R / rz \<noteq> 0" using pos rzn by simp
  with x7 obtain t7 where t7: "x7 = R / rz * t7" "\<bar>t7 - 1\<bar> \<le> e"
    by (rule rel_err_factor)
  note n7 = ln_near_one [OF t7(2) e]
  have x7p: "0 < x7"
    unfolding t7(1) using ratiop n7(1) by (rule mult_pos_pos)
  have "ln x7 = ln (R / rz) + ln t7"
    unfolding t7(1) using ratiop n7(1) by (rule ln_mult_pos)
  then have lx7: "ln x7 = - (ln q + ln t6 + ln t6') + ln t7"
    by (simp only: lratio)
  have "x7 powr (- Q) \<noteq> 0" using x7p by simp
  with p [OF x7p] obtain tp where tp: "p = x7 powr (- Q) * tp" "\<bar>tp - 1\<bar> \<le> e"
    by (rule rel_err_factor)
  note np = ln_near_one [OF tp(2) e]
  have pp: "0 < p" using tp(1) np(1) x7p by simp
  have lp: "ln p = - Q * ln x7 + ln tp"
    using x7p np(1) by (simp add: tp(1) ln_mult)
  have "P * p \<noteq> 0" using pos pp by simp
  with y1 obtain t8 where t8: "y1 = P * p * t8" "\<bar>t8 - 1\<bar> \<le> e"
    by (rule rel_err_factor)
  note n8 = ln_near_one [OF t8(2) e]
  have y1p: "0 < y1" using t8(1) n8(1) pos pp by simp
  then have "y1 \<noteq> 0" by simp
  with y obtain t8' where t8': "y = y1 * t8'" "\<bar>t8' - 1\<bar> \<le> e"
    by (rule rel_err_factor)
  note n8' = ln_near_one [OF t8'(2) e]
  show "0 < y" using t8'(1) n8'(1) y1p by simp
  have ly: "ln y = ln P + ln p + ln t8 + ln t8'"
    using pos pp n8(1) n8'(1) by (simp add: t8'(1) t8(1) ln_mult)
  define S where "S = ln tq + ln t6 + ln t6' - ln t7"
  have "ln p = Q * (ln q + ln t6 + ln t6' - ln t7) + ln tp"
    unfolding lp lx7 by (simp add: algebra_simps)
  also have "ln q + ln t6 + ln t6' - ln t7 = x5 * ln x4 + S"
    unfolding lq S_def by simp
  also have "Q * (x5 * ln x4 + S) = t5 * ln x4 + Q * S"
    unfolding Qx5 [symmetric] by (simp add: algebra_simps)
  finally have lp': "ln p = t5 * (L + ln t4) + Q * S + ln tp"
    unfolding lx4 .
  have "ln y - ln c = ln p - L + ln t8 + ln t8'"
    unfolding ly L by simp
  also have "ln p - L = (t5 - 1) * L + t5 * ln t4 + Q * S + ln tp"
    unfolding lp' by (simp add: algebra_simps)
  finally have eq: "ln y - ln c =
      (t5 - 1) * L + t5 * ln t4 + Q * S + ln tp + ln t8 + ln t8'"
    by simp
  have e0: "0 \<le> e" using t5(2) by linarith
  have a: "\<bar>(t5 - 1) * L\<bar> \<le> e * \<bar>L\<bar>"
    using t5(2) by (simp add: abs_mult mult_right_mono)
  have "\<bar>t5\<bar> \<le> 3 / 2" using t5(2) e by linarith
  then have "\<bar>t5\<bar> * \<bar>ln t4\<bar> \<le> 3 / 2 * (2 * e)"
    using n4(2) by (intro mult_mono) simp_all
  then have b: "\<bar>t5 * ln t4\<bar> \<le> 3 * e"
    by (simp add: abs_mult)
  have "- (8 * e) \<le> S \<and> S \<le> 8 * e"
    using nq(2) [unfolded abs_le_iff] n6(2) [unfolded abs_le_iff]
      n6'(2) [unfolded abs_le_iff] n7(2) [unfolded abs_le_iff]
    unfolding S_def by linarith
  then have "\<bar>S\<bar> \<le> 8 * e"
    by (simp add: abs_le_iff)
  then have "\<bar>Q\<bar> * \<bar>S\<bar> \<le> \<bar>Q\<bar> * (8 * e)"
    by (intro mult_left_mono) simp_all
  then have c: "\<bar>Q * S\<bar> \<le> e * (8 * \<bar>Q\<bar>)"
    by (simp add: abs_mult mult.commute mult.left_commute)
  define T where "T = e * \<bar>L\<bar> + 3 * e + e * (8 * \<bar>Q\<bar>) + 2 * e + 2 * e + 2 * e"
  have "- T \<le> ln y - ln c \<and> ln y - ln c \<le> T"
    unfolding eq T_def
    using a [unfolded abs_le_iff] b [unfolded abs_le_iff] c [unfolded abs_le_iff]
      np(2) [unfolded abs_le_iff] n8(2) [unfolded abs_le_iff] n8'(2) [unfolded abs_le_iff]
    by linarith
  then have "\<bar>ln y - ln c\<bar> \<le> T"
    by (simp add: abs_le_iff)
  also have "T = e * (\<bar>L\<bar> + 8 * \<bar>Q\<bar> + 9)"
    unfolding T_def by (simp add: algebra_simps)
  finally show "\<bar>ln y - ln c\<bar> \<le> e * (\<bar>ln (c / P)\<bar> + 8 * \<bar>Q\<bar> + 9)"
    by (simp only: L_def)
qed

lemma ln_close_imp_close:
  fixes y c B :: real
  assumes "0 < y" "0 < c" "\<bar>ln y - ln c\<bar> \<le> B"
  shows "\<bar>y - c\<bar> \<le> c * (exp B - 1)"
proof -
  have "y = c * exp (ln y - ln c)"
    using assms by (simp add: exp_diff)
  moreover have "exp (ln y - ln c) \<le> exp B"
    using assms by simp
  moreover have "exp (- B) \<le> exp (ln y - ln c)"
    using assms by simp
  moreover have "1 - exp (- B) \<le> exp B - 1"
  proof -
    have "2 \<le> exp B + exp (- B)"
      using exp_ge_add_one_self [of B] exp_ge_add_one_self [of "- B"] by linarith
    then show ?thesis by linarith
  qed
  ultimately obtain w where w: "y = c * w" "w \<le> exp B" "1 - w \<le> exp B - 1"
    by (metis diff_left_mono order_trans)
  have "y - c = c * (w - 1)"
    by (simp add: w(1) algebra_simps)
  then have "\<bar>y - c\<bar> = c * \<bar>w - 1\<bar>"
    using assms(2) by (simp add: abs_mult)
  also have "\<dots> \<le> c * (exp B - 1)"
    using w assms(2) by (intro mult_left_mono) linarith+
  finally show ?thesis .
qed

text \<open>Without rounding the functions are the exact ones.\<close>

lemma fsub_r_exact: "fsub_r Finite x y = fsub x y"
  by (cases x; cases y) simp_all

lemma fmul_r_exact: "fmul_r Finite x y = fmul x y"
  by (cases x; cases y) simp_all

lemma fdiv_r_exact: "fdiv_r Finite x y = fdiv x y"
  by (cases x; cases y) simp_all

lemma conv_r_exact: "conv_r Finite x = x"
  by (cases x) simp_all

lemma pow_r_exact: "pow_r (\<lambda>a b. Finite (a powr b)) x y = pow x y"
  by (cases x; cases y) (simp_all add: pow_r_def pow_def)

lemma getResistance_r_exact: "getResistance_r exact_fpu = getResistance"
  by (intro ext)
    (simp add: getResistance_r_def getResistance_def exact_fpu_def
      fsub_r_exact fmul_r_exact fdiv_r_exact conv_r_exact)

lemma getPPM_r_exact: "getPPM_r exact_fpu = getPPM"
  by (intro ext)
    (simp add: getPPM_r_def getPPM_def getResistance_r_exact,
     simp add: exact_fpu_def fmul_r_exact fdiv_r_exact conv_r_exact pow_r_exact)

lemma measureRZero_r_exact: "measureRZero_r exact_fpu = measureRZero"
  by (intro ext)
    (simp add: measureRZero_r_def measureRZero_def getResistance_r_exact,
     simp add: exact_fpu_def fmul_r_exact fdiv_r_exact conv_r_exact pow_r_exact)

lemma getResistance_r_state [simp]: "snd (getResistance_r F analogRead m) = m"
  by (simp add: getResistance_r_def Let_def)

lemma getResistance_r_rzero [simp]:
  "getResistance_r F analogRead (m\<lparr>rzero := z\<rparr>) =
     (fst (getResistance_r F analogRead m), m\<lparr>rzero := z\<rparr>)"
  by (simp add: getResistance_r_def Let_def)

lemma pow_r_accurate:
  assumes r: "pow_r pw (Finite a) (Finite b) = Finite y"
    and a: "0 < a" and b: "b \<noteq> 0" and e: "0 \<le> e" and y: "lo \<le> \<bar>y\<bar>"
    and pw: "\<And>a b y. 0 < a \<Longrightarrow> pw a b = Finite y \<Longrightarrow> lo \<le> \<bar>y\<bar> \<Longrightarrow>
               \<bar>y - a powr b\<bar> \<le> e * \<bar>a powr b\<bar>"
  shows "\<bar>y - a powr b\<bar> \<le> e * \<bar>a powr b\<bar>"
proof (cases "a = 1")
  case True
  with r have "y = 1" by (simp add: pow_r_def)
  with True e show ?thesis by simp
next
  case False
  with r a b have "pw a b = Finite y" by (simp add: pow_r_def)
  with a show ?thesis using y by (rule pw)
qed

lemma nonneg_factor: "0 < d \<Longrightarrow> 0 \<le> e * d \<Longrightarrow> 0 \<le> (e::real)"
  by (simp add: zero_le_mult_iff)

text \<open>
  C1, as the code has it. Take a finite positive stored atmospheric baseline \<open>c\<close> (the
  macros \<open>PARA\<close> positive and \<open>PARB\<close> non-zero) and a raw sample at which
  \<^verbatim>\<open>getResistance()\<close> is finite and non-zero, which excludes the full scale 1023. Then
  \<^verbatim>\<open>measureRZero()\<close>, \<^verbatim>\<open>setRzero(result)\<close> and \<^verbatim>\<open>getPPM()\<close> at the same raw sample yield
  the baseline within floating-point tolerance, provided no step overflows or leaves the
  normal range: when every rounding and \<^verbatim>\<open>pow\<close> has relative error at most \<open>e \<le> 1/2\<close> on
  results of magnitude at least \<open>lo\<close>, and every step of the two computations returns
  such a result, the value \<open>y\<close> returned by \<^verbatim>\<open>getPPM()\<close> satisfies
  \<open>\<bar>y - c\<bar> \<le> c (exp (e (\<bar>ln (c / PARA)\<bar> + 8 \<bar>PARB\<bar> + 9)) - 1)\<close>.
\<close>

theorem calibration_round_trip:
  assumes e: "e \<le> 1 / 2" and lo: "0 < lo"
    and rd: "\<And>x y. rnd_double F x = Finite y \<Longrightarrow> lo \<le> \<bar>y\<bar> \<Longrightarrow> \<bar>y - x\<bar> \<le> e * \<bar>x\<bar>"
    and rf: "\<And>x y. rnd_float F x = Finite y \<Longrightarrow> lo \<le> \<bar>y\<bar> \<Longrightarrow> \<bar>y - x\<bar> \<le> e * \<bar>x\<bar>"
    and pw: "\<And>a b y. 0 < a \<Longrightarrow> libm_pow F a b = Finite y \<Longrightarrow> lo \<le> \<bar>y\<bar> \<Longrightarrow>
               \<bar>y - a powr b\<bar> \<le> e * \<bar>a powr b\<bar>"
    and K: "0 < PARA K" "PARB K \<noteq> 0"
    and c: "atmoco2 m = Finite c" "0 < c"
    and R: "rounds_to lo (fst (getResistance_r F analogRead m)) R"
    and x4: "rounds_to lo (rnd_double F (c / PARA K)) x4"
    and x5: "rounds_to lo (rnd_double F (1 / PARB K)) x5"
    and q: "rounds_to lo (pow_r (libm_pow F) (Finite x4) (Finite x5)) q"
    and z1: "rounds_to lo (rnd_double F (R * q)) z1"
    and rz: "rounds_to lo (rnd_float F z1) rz"
    and x7: "rounds_to lo (rnd_float F (R / rz)) x7"
    and p: "rounds_to lo (pow_r (libm_pow F) (Finite x7) (Finite (- PARB K))) p"
    and y1: "rounds_to lo (rnd_double F (PARA K * p)) y1"
    and y: "rounds_to lo (rnd_float F y1) y"
  shows "fst (getPPM_r F K analogRead
                (setRzero K (fst (measureRZero_r F K analogRead m)) m)) = Finite y \<and>
         \<bar>y - c\<bar> \<le> c * (exp (e * (\<bar>ln (c / PARA K)\<bar> + 8 * \<bar>PARB K\<bar> + 9)) - 1)"
proof -
  note defs = rounds_to_def
  from R have res: "fst (getResistance_r F analogRead m) = Finite R" and Rlo: "lo \<le> \<bar>R\<bar>"
    by (simp_all add: defs)
  from x4 have x4e: "rnd_double F (c / PARA K) = Finite x4" and x4lo: "lo \<le> \<bar>x4\<bar>"
    by (simp_all add: defs)
  from x5 have x5e: "rnd_double F (1 / PARB K) = Finite x5" and x5lo: "lo \<le> \<bar>x5\<bar>"
    by (simp_all add: defs)
  from q have qe: "pow_r (libm_pow F) (Finite x4) (Finite x5) = Finite q" and qlo: "lo \<le> \<bar>q\<bar>"
    by (simp_all add: defs)
  from z1 have z1e: "rnd_double F (R * q) = Finite z1" and z1lo: "lo \<le> \<bar>z1\<bar>"
    by (simp_all add: defs)
  from rz have rze: "rnd_float F z1 = Finite rz" and rzlo: "lo \<le> \<bar>rz\<bar>"
    by (simp_all add: defs)
  from x7 have x7e: "rnd_float F (R / rz) = Finite x7" and x7lo: "lo \<le> \<bar>x7\<bar>"
    by (simp_all add: defs)
  from p have pe: "pow_r (libm_pow F) (Finite x7) (Finite (- PARB K)) = Finite p"
    and plo: "lo \<le> \<bar>p\<bar>"
    by (simp_all add: defs)
  from y1 have y1e: "rnd_double F (PARA K * p) = Finite y1" and y1lo: "lo \<le> \<bar>y1\<bar>"
    by (simp_all add: defs)
  from y have ye: "rnd_float F y1 = Finite y" and ylo: "lo \<le> \<bar>y\<bar>"
    by (simp_all add: defs)
  have Rn: "R \<noteq> 0" and rzn: "rz \<noteq> 0" and x5n: "x5 \<noteq> 0"
    using lo Rlo rzlo x5lo by auto
  have Pn: "PARA K \<noteq> 0" using K by simp
  have meas: "fst (measureRZero_r F K analogRead m) = Finite rz"
    by (simp add: measureRZero_r_def split_beta res c(1) Pn K(2) x4e x5e qe z1e rze)
  then have set: "setRzero K (fst (measureRZero_r F K analogRead m)) m = m\<lparr>rzero := Finite rz\<rparr>"
    using rzn by (simp add: setRzero_def)
  have ppm: "fst (getPPM_r F K analogRead (m\<lparr>rzero := Finite rz\<rparr>)) = Finite y"
    by (simp add: getPPM_r_def split_beta res rzn x7e pe y1e ye)
  have a4: "\<bar>x4 - c / PARA K\<bar> \<le> e * \<bar>c / PARA K\<bar>"
    using x4e x4lo by (rule rd)
  have a5: "\<bar>x5 - 1 / PARB K\<bar> \<le> e * \<bar>1 / PARB K\<bar>"
    using x5e x5lo by (rule rd)
  have "0 < \<bar>c / PARA K\<bar>" using c K by simp
  moreover have "0 \<le> e * \<bar>c / PARA K\<bar>" using a4 by linarith
  ultimately have e0: "0 \<le> e"
    by (rule nonneg_factor)
  have aq: "\<bar>q - x4 powr x5\<bar> \<le> e * \<bar>x4 powr x5\<bar>" if "0 < x4"
    using qe that x5n e0 qlo pw by (rule pow_r_accurate)
  have az: "\<bar>z1 - R * q\<bar> \<le> e * \<bar>R * q\<bar>"
    using z1e z1lo by (rule rd)
  have ar: "\<bar>rz - z1\<bar> \<le> e * \<bar>z1\<bar>"
    using rze rzlo by (rule rf)
  have a7: "\<bar>x7 - R / rz\<bar> \<le> e * \<bar>R / rz\<bar>"
    using x7e x7lo by (rule rf)
  have Qn: "- PARB K \<noteq> 0" using K by simp
  have ap: "\<bar>p - x7 powr (- PARB K)\<bar> \<le> e * \<bar>x7 powr (- PARB K)\<bar>" if "0 < x7"
    using pe that Qn e0 plo pw by (rule pow_r_accurate)
  have a1: "\<bar>y1 - PARA K * p\<bar> \<le> e * \<bar>PARA K * p\<bar>"
    using y1e y1lo by (rule rd)
  have ay: "\<bar>y - y1\<bar> \<le> e * \<bar>y1\<bar>"
    using ye ylo by (rule rf)
  note err = round_trip_error [OF e c(2) K(1) K(2) Rn a4 a5 aq az ar a7 ap a1 ay]
  have "\<bar>y - c\<bar> \<le> c * (exp (e * (\<bar>ln (c / PARA K)\<bar> + 8 * \<bar>PARB K\<bar> + 9)) - 1)"
    using err(2) c(2) err(3) by (rule ln_close_imp_close)
  with ppm show ?thesis
    by (simp only: set simp_thms)
qed

theorem calibration_round_trip_witness:
  "(1 / 2 ^ 23 :: real) \<le> 1 / 2 \<and> (0 :: real) < 1 / 2 ^ 126 \<and>
   0 < PARA example_macros \<and> PARB example_macros \<noteq> 0 \<and>
   atmoco2 (MQ135 example_macros 0) = Finite (39713 / 100) \<and>
   rounds_to (1 / 2 ^ 126)
     (fst (getResistance_r exact_fpu (\<lambda>p. 200) (MQ135 example_macros 0))) (823 / 20) \<and>
   rounds_to (1 / 2 ^ 126)
     (pow_r (libm_pow exact_fpu) (Finite (39713 / 100 / PARA example_macros))
        (Finite (1 / PARB example_macros)))
     ((39713 / 100 / PARA example_macros) powr (1 / PARB example_macros)) \<and>
   fst (getPPM_r exact_fpu example_macros (\<lambda>p. 200)
          (setRzero example_macros
             (fst (measureRZero_r exact_fpu example_macros (\<lambda>p. 200)
                     (MQ135 example_macros 0)))
             (MQ135 example_macros 0))) =
     Finite (PARA example_macros *
       (823 / 20 /
        (823 / 20 * ((39713 / 100 / PARA example_macros) powr (1 / PARB example_macros))))
         powr (- PARB example_macros)) \<and>
   \<bar>(PARA example_macros *
       (823 / 20 /
        (823 / 20 * ((39713 / 100 / PARA example_macros) powr (1 / PARB example_macros))))
         powr (- PARB example_macros)) - 39713 / 100\<bar> \<le>
     39713 / 100 *
       (exp (1 / 2 ^ 23 *
             (\<bar>ln (39713 / 100 / PARA example_macros)\<bar> + 8 * \<bar>PARB example_macros\<bar> + 9))
        - 1)"
proof -
  define lo :: real where "lo = 1 / 2 ^ 126"
  define P where "P = PARA example_macros"
  define Q where "Q = PARB example_macros"
  define R :: real where "R = 823 / 20"
  define x4 where "x4 = 39713 / 100 / P"
  define x5 where "x5 = 1 / Q"
  define q where "q = x4 powr x5"
  define x7 where "x7 = R / (R * q)"
  define p where "p = x7 powr (- Q)"
  have e: "(1 / 2 ^ 23 :: real) \<le> 1 / 2" and lo: "0 < lo" and lo1: "lo \<le> 1"
    and lo4: "lo \<le> 1 / 4"
    by (simp_all add: lo_def)
  have rd: "\<And>x y. rnd_double exact_fpu x = Finite y \<Longrightarrow> lo \<le> \<bar>y\<bar> \<Longrightarrow>
              \<bar>y - x\<bar> \<le> 1 / 2 ^ 23 * \<bar>x\<bar>"
    and rf: "\<And>x y. rnd_float exact_fpu x = Finite y \<Longrightarrow> lo \<le> \<bar>y\<bar> \<Longrightarrow>
              \<bar>y - x\<bar> \<le> 1 / 2 ^ 23 * \<bar>x\<bar>"
    and pw: "\<And>a b y. 0 < a \<Longrightarrow> libm_pow exact_fpu a b = Finite y \<Longrightarrow> lo \<le> \<bar>y\<bar> \<Longrightarrow>
              \<bar>y - a powr b\<bar> \<le> 1 / 2 ^ 23 * \<bar>a powr b\<bar>"
    by (simp_all add: exact_fpu_def)
  have K: "0 < P" "Q \<noteq> 0" and Q: "1 \<le> Q" and P: "1 \<le> P"
    by (simp_all add: P_def Q_def example_macros_def)
  have c: "atmoco2 (MQ135 example_macros 0) = Finite (39713 / 100)" "(0::real) < 39713 / 100"
    by (simp_all add: MQ135_def example_macros_def)
  have Rv: "fst (getResistance_r exact_fpu (\<lambda>p. 200) (MQ135 example_macros 0)) = Finite R"
    by (simp add: getResistance_r_def exact_fpu_def float_of_int_def R_def
        MQ135_def example_macros_def)
  have R1: "1 \<le> R" by (simp add: R_def)
  have x4b: "1 < x4" "x4 \<le> 4"
    by (simp_all add: x4_def P_def example_macros_def)
  have x5b: "0 < x5" "x5 \<le> 1"
    using Q by (simp_all add: x5_def)
  have q1: "1 \<le> q"
    unfolding q_def using x4b x5b by (intro ge_one_powr_ge_zero) simp_all
  have "q \<le> x4 powr 1"
    unfolding q_def using x4b x5b by (intro powr_mono) simp_all
  then have q4: "q \<le> 4" using x4b by simp
  have x7v: "x7 = 1 / q" using R1 by (simp add: x7_def)
  have x7b: "1 / 4 \<le> x7" "x7 \<le> 1" "0 < x7"
    using q1 q4 by (simp_all add: x7v field_simps)
  have "p = q powr Q"
    using q1 by (simp add: p_def x7v powr_minus_divide powr_divide)
  then have p1: "1 \<le> p"
    using q1 Q by (simp add: ge_one_powr_ge_zero)
  have Pp: "1 \<le> P * p"
    using P p1 by (metis mult_mono mult_1 zero_le_one order_trans)
  have R': "rounds_to lo (fst (getResistance_r exact_fpu (\<lambda>p. 200) (MQ135 example_macros 0))) R"
    using R1 lo1 by (simp add: rounds_to_def Rv)
  have "rnd_double exact_fpu (39713 / 100 / P) = Finite x4"
    by (simp add: exact_fpu_def x4_def)
  moreover have "lo \<le> \<bar>x4\<bar>"
    using x4b lo1 by linarith
  ultimately have h4: "rounds_to lo (rnd_double exact_fpu (39713 / 100 / P)) x4"
    by (simp only: rounds_to_def simp_thms)
  have "rnd_double exact_fpu (1 / Q) = Finite x5"
    by (simp add: exact_fpu_def x5_def)
  moreover have "1 / 4 \<le> x5"
    by (simp add: x5_def Q_def example_macros_def)
  then have "lo \<le> \<bar>x5\<bar>"
    using lo4 by linarith
  ultimately have h5: "rounds_to lo (rnd_double exact_fpu (1 / Q)) x5"
    by (simp only: rounds_to_def simp_thms)
  have powq: "pow_r (libm_pow exact_fpu) (Finite x4) (Finite x5) = Finite q"
    using x4b x5b by (simp add: pow_r_def exact_fpu_def q_def)
  have hq: "rounds_to lo (pow_r (libm_pow exact_fpu) (Finite x4) (Finite x5)) q"
    using q1 lo1 by (simp add: rounds_to_def powq)
  have Rq: "1 \<le> R * q"
    using R1 q1 by (metis mult_mono mult_1 zero_le_one order_trans)
  have hz: "rounds_to lo (rnd_double exact_fpu (R * q)) (R * q)"
    using Rq lo1 by (simp add: rounds_to_def exact_fpu_def)
  have hr: "rounds_to lo (rnd_float exact_fpu (R * q)) (R * q)"
    using Rq lo1 by (simp add: rounds_to_def exact_fpu_def)
  have "rnd_float exact_fpu (R / (R * q)) = Finite x7"
    by (simp only: exact_fpu_def x7_def fpu.simps)
  moreover have "lo \<le> \<bar>x7\<bar>"
    using x7b lo4 by linarith
  ultimately have h7: "rounds_to lo (rnd_float exact_fpu (R / (R * q))) x7"
    by (simp only: rounds_to_def simp_thms)
  have powp: "pow_r (libm_pow exact_fpu) (Finite x7) (Finite (- Q)) = Finite p"
    using x7b K by (auto simp add: pow_r_def exact_fpu_def p_def)
  have hp: "rounds_to lo (pow_r (libm_pow exact_fpu) (Finite x7) (Finite (- Q))) p"
    using p1 lo1 by (simp add: rounds_to_def powp)
  have h1: "rounds_to lo (rnd_double exact_fpu (P * p)) (P * p)"
    using Pp lo1 by (simp add: rounds_to_def exact_fpu_def)
  have hy: "rounds_to lo (rnd_float exact_fpu (P * p)) (P * p)"
    using Pp lo1 by (simp add: rounds_to_def exact_fpu_def)
  note rt = calibration_round_trip [where e = "1 / 2 ^ 23" and lo = lo and F = exact_fpu
      and K = example_macros and m = "MQ135 example_macros 0" and c = "39713 / 100"
      and analogRead = "\<lambda>p. 200", folded P_def Q_def,
      OF e lo rd rf pw K c R' h4 h5 hq hz hr h7 hp h1 hy]
  from rt have r1: "fst (getPPM_r exact_fpu example_macros (\<lambda>p. 200)
          (setRzero example_macros
             (fst (measureRZero_r exact_fpu example_macros (\<lambda>p. 200)
                     (MQ135 example_macros 0)))
             (MQ135 example_macros 0))) = Finite (P * p)"
    by (rule conjunct1)
  from rt have r2: "\<bar>P * p - 39713 / 100\<bar> \<le>
      39713 / 100 * (exp (1 / 2 ^ 23 * (\<bar>ln (39713 / 100 / P)\<bar> + 8 * \<bar>Q\<bar> + 9)) - 1)"
    by (rule conjunct2)
  from e lo K c(1) R' hq r1 r2 show ?thesis
    unfolding lo_def P_def Q_def R_def x4_def x5_def q_def x7_def p_def by (intro conjI)
qed

text \<open>
  C1, as the claim states it, fails at the full-scale sample 1023: the resistance is 0,
  so is the measured reference resistance, \<^verbatim>\<open>setRzero(0)\<close> stores the default, and
  \<^verbatim>\<open>getPPM()\<close> is \<open>PARA * pow(0, - PARB)\<close>, which is \<^verbatim>\<open>+inf\<close>, not the baseline 397.13.
\<close>

theorem calibration_round_trip_counterexample:
  "fst (getPPM example_macros (\<lambda>p. 1023)
         (setRzero example_macros
            (fst (measureRZero example_macros (\<lambda>p. 1023) (MQ135 example_macros 0)))
            (MQ135 example_macros 0))) = PInf \<and>
   atmoco2 (MQ135 example_macros 0) = Finite (39713 / 100)"
  by (simp add: getPPM_def measureRZero_def setRzero_def getResistance_def MQ135_def
      example_macros_def float_of_int_def Let_def pow_def inf_of_def)

subsection \<open>The reference resistance is never zero\<close>

lemma call_setter_rzero:
  "RZERO K \<noteq> 0 \<Longrightarrow> \<not> feq (rzero m) (Finite 0) \<Longrightarrow>
     \<not> feq (rzero (call_setter K m c)) (Finite 0)"
  by (cases c) (simp_all add: setRzero_def setRload_def setAtmoco2_def)

lemma call_setters_rzero:
  "RZERO K \<noteq> 0 \<Longrightarrow> \<not> feq (rzero m) (Finite 0) \<Longrightarrow>
     \<not> feq (rzero (call_setters K m cs)) (Finite 0)"
proof (induction cs arbitrary: m)
  case Nil
  then show ?case by simp
next
  case (Cons c cs)
  from Cons.prems have "\<not> feq (rzero (call_setter K m c)) (Finite 0)"
    by (rule call_setter_rzero)
  with Cons.prems(1) show ?case
    by (simp add: Cons.IH)
qed

lemma getRzero_nonzero: "\<not> feq (rzero m) (Finite 0) \<Longrightarrow> fst (getRzero K m) = rzero m"
  by (simp add: getRzero_def)

text \<open>
  C10. For a sensor made by the one-argument constructor, after any sequence of setter
  calls the stored reference resistance does not compare equal to zero (the default
  \<open>RZERO\<close> being non-zero), so the getter returns the field itself, and \<^verbatim>\<open>getPPM()\<close> and
  \<^verbatim>\<open>getCorrectedPPM()\<close>, which divide by the field, are the curve at \<^verbatim>\<open>getRzero()\<close>.
\<close>

theorem rzero_never_zero:
  assumes "RZERO K \<noteq> 0" and "M = call_setters K (MQ135 K p) cs"
  shows "\<not> feq (rzero M) (Finite 0) \<and>
         fst (getRzero K M) = rzero M \<and>
         fst (getPPM K analogRead M) =
           fmul (Finite (PARA K))
             (pow (fdiv (fst (getResistance analogRead M)) (fst (getRzero K M)))
                  (Finite (- PARB K))) \<and>
         fst (getCorrectedPPM K analogRead t h M) =
           fmul (Finite (PARA K))
             (pow (fdiv (fst (getCorrectedResistance K analogRead t h M)) (fst (getRzero K M)))
                  (Finite (- PARB K)))"
proof -
  from assms(1) have "\<not> feq (rzero (MQ135 K p)) (Finite 0)"
    by (simp add: MQ135_def)
  with assms have nz: "\<not> feq (rzero M) (Finite 0)"
    by (simp add: call_setters_rzero)
  then have "fst (getRzero K M) = rzero M"
    by (rule getRzero_nonzero)
  with nz show ?thesis
    by (simp only: getPPM_value getCorrectedPPM_value simp_thms)
qed

theorem rzero_never_zero_witness:
  "RZERO example_macros \<noteq> 0 \<and>
   rzero (call_setters example_macros (MQ135 example_macros 0)
            [SetRzero (Finite 5), SetRload (Finite 0), SetRzero (Finite 0),
             SetAtmoco2 (Finite 400)]) = Finite (7663 / 100) \<and>
   \<not> feq (rzero (call_setters example_macros (MQ135 example_macros 0)
                   [SetRzero (Finite 5), SetRload (Finite 0), SetRzero (Finite 0),
                    SetAtmoco2 (Finite 400)])) (Finite 0)"
  using rzero_never_zero
          [of example_macros
              "call_setters example_macros (MQ135 example_macros 0)
                 [SetRzero (Finite 5), SetRload (Finite 0), SetRzero (Finite 0),
                  SetAtmoco2 (Finite 400)]" 0
              "[SetRzero (Finite 5), SetRload (Finite 0), SetRzero (Finite 0),
                SetAtmoco2 (Finite 400)]"]
  by (simp add: MQ135_def example_macros_def setRzero_def setRload_def setAtmoco2_def)

end
